theory Spec2Isabelle
  imports Main "HOL-Library.Word"
begin

section \<open>Traversal-cost evaluation over the representative ray set\<close>

text \<open>
  The evaluator of \<^verbatim>\<open>tiny_bvh_optimizer.cpp\<close> works on three globals: the ray array
  \<^verbatim>\<open>rayset\<close>, the per-thread result array \<^verbatim>\<open>splitSum[256]\<close> and the console. The
  hierarchy type and its \<^verbatim>\<open>Intersect\<close> routine live in \<^verbatim>\<open>tiny_bvh.h\<close>; they are
  parameters here: \<open>isect bvh r\<close> gives the step count that \<^verbatim>\<open>Intersect\<close> returns and the
  ray as \<^verbatim>\<open>Intersect\<close> leaves it (hit record filled in), and \<open>differs r r2\<close> stands for
  the float comparison \<^verbatim>\<open>r.hit.t != r2.hit.t\<close>. Sums are \<^verbatim>\<open>uint32_t\<close>, so they wrap.
\<close>

type_synonym u32 = "32 word"

record 'ray globals =
  rayset :: "'ray list"
  splitSum :: "u32 list"
  console :: "string list"

text \<open>The line that \<^verbatim>\<open>printf\<close> of line 254 adds to the console.\<close>

definition damaged_msg :: string where
  "damaged_msg = ''damaged BVH.''"

text \<open>One round of the loop body with a reference hierarchy (lines 251 to 255): both
  traversals run on the locals \<open>r\<close> and \<open>r2\<close>, the step count is added, and a mismatch
  prints a line.\<close>

definition verify_step ::
  "('bvh \<Rightarrow> 'ray \<Rightarrow> u32 \<times> 'ray) \<Rightarrow> ('ray \<Rightarrow> 'ray \<Rightarrow> bool) \<Rightarrow> 'bvh \<Rightarrow> 'bvh \<Rightarrow>
   'ray list \<Rightarrow> nat \<Rightarrow> u32 \<times> string list \<Rightarrow> u32 \<times> string list" where
  "verify_step isect differs bvh refBVH rs i acc =
     (let r2 = rs ! i; r = r2;
          (steps, r') = isect bvh r;
          (steps2, r2') = isect refBVH r2
      in (fst acc + steps,
          if differs r' r2' then snd acc @ [damaged_msg] else snd acc))"

text \<open>The loop body without a reference hierarchy (line 256).\<close>

definition plain_step ::
  "('bvh \<Rightarrow> 'ray \<Rightarrow> u32 \<times> 'ray) \<Rightarrow> 'bvh \<Rightarrow> 'ray list \<Rightarrow> nat \<Rightarrow>
   u32 \<times> string list \<Rightarrow> u32 \<times> string list" where
  "plain_step isect bvh rs i acc =
     (let r = rs ! i; (steps, r') = isect bvh r in (fst acc + steps, snd acc))"

text \<open>\<^verbatim>\<open>TraceCostThread\<close>: \<open>N\<close> is \<^verbatim>\<open>RRS_SIZE\<close>. The bounds are \<^verbatim>\<open>uint32_t\<close>
  values, hence the reductions modulo \<open>2 ^ 32\<close>; \<open>seti\<close> is the argument
  \<^verbatim>\<open>set\<close> and \<open>endi\<close> the local \<^verbatim>\<open>end\<close>.\<close>

definition shard_start :: "nat \<Rightarrow> nat \<Rightarrow> nat \<Rightarrow> nat" where
  "shard_start N seti sets = (((N div sets) mod 2 ^ 32) * seti) mod 2 ^ 32"

definition shard_end :: "nat \<Rightarrow> nat \<Rightarrow> nat \<Rightarrow> nat" where
  "shard_end N seti sets =
     (if Suc seti = sets then N
      else (shard_start N seti sets + (N div sets) mod 2 ^ 32) mod 2 ^ 32)"

definition TraceCostThread ::
  "('bvh \<Rightarrow> 'ray \<Rightarrow> u32 \<times> 'ray) \<Rightarrow> ('ray \<Rightarrow> 'ray \<Rightarrow> bool) \<Rightarrow> nat \<Rightarrow>
   'bvh \<Rightarrow> 'bvh option \<Rightarrow> nat \<Rightarrow> nat \<Rightarrow> 'ray globals \<Rightarrow> 'ray globals" where
  "TraceCostThread isect differs N bvh refBVH seti sets g =
     (let start = shard_start N seti sets;
          endi = shard_end N seti sets;
          (sum, con) =
            (case refBVH of
               Some rb \<Rightarrow>
                 fold (verify_step isect differs bvh rb (rayset g)) [start..<endi] (0, console g)
             | None \<Rightarrow>
                 fold (plain_step isect bvh (rayset g)) [start..<endi] (0, console g))
      in g\<lparr>splitSum := (splitSum g)[seti := sum], console := con\<rparr>)"

text \<open>\<^verbatim>\<open>RRSTraceCost\<close> starts the threads, joins them, adds the slots of \<^verbatim>\<open>splitSum\<close>
  and divides. Each thread writes its own slot only, so the threads are run here one after
  the other, in the order of their creation. \<open>fdiv s N\<close> is the float expression
  \<^verbatim>\<open>(float)sum / RRS_SIZE\<close>. The source fixes the number of threads at 8;
  \<open>RRSTraceCost_sets\<close> has it as an argument.\<close>

definition run_threads ::
  "('bvh \<Rightarrow> 'ray \<Rightarrow> u32 \<times> 'ray) \<Rightarrow> ('ray \<Rightarrow> 'ray \<Rightarrow> bool) \<Rightarrow> nat \<Rightarrow>
   'bvh \<Rightarrow> 'bvh option \<Rightarrow> nat \<Rightarrow> nat list \<Rightarrow> 'ray globals \<Rightarrow> 'ray globals" where
  "run_threads isect differs N bvh refBVH sets order g =
     fold (\<lambda>i. TraceCostThread isect differs N bvh refBVH i sets) order g"

definition RRSTraceCost_sets ::
  "('bvh \<Rightarrow> 'ray \<Rightarrow> u32 \<times> 'ray) \<Rightarrow> ('ray \<Rightarrow> 'ray \<Rightarrow> bool) \<Rightarrow> (u32 \<Rightarrow> nat \<Rightarrow> 'c) \<Rightarrow> nat \<Rightarrow>
   nat \<Rightarrow> 'bvh \<Rightarrow> 'bvh option \<Rightarrow> 'ray globals \<Rightarrow> 'c \<times> 'ray globals" where
  "RRSTraceCost_sets isect differs fdiv N sets bvh refBVH g =
     (let g' = run_threads isect differs N bvh refBVH sets [0..<sets] g;
          sum = fold (\<lambda>i s. s + splitSum g' ! i) [0..<sets] 0
      in (fdiv sum N, g'))"

definition RRSTraceCost ::
  "('bvh \<Rightarrow> 'ray \<Rightarrow> u32 \<times> 'ray) \<Rightarrow> ('ray \<Rightarrow> 'ray \<Rightarrow> bool) \<Rightarrow> (u32 \<Rightarrow> nat \<Rightarrow> 'c) \<Rightarrow> nat \<Rightarrow>
   'bvh \<Rightarrow> 'bvh option \<Rightarrow> 'ray globals \<Rightarrow> 'c \<times> 'ray globals" where
  "RRSTraceCost isect differs fdiv N bvh refBVH g =
     RRSTraceCost_sets isect differs fdiv N 8 bvh refBVH g"

text \<open>The sequential evaluation the specification compares with: every ray of the set, in
  index order, one accumulator, then the same division.\<close>

definition sequential_sum :: "('bvh \<Rightarrow> 'ray \<Rightarrow> u32 \<times> 'ray) \<Rightarrow> 'bvh \<Rightarrow> 'ray list \<Rightarrow> u32" where
  "sequential_sum isect bvh rs = fold (\<lambda>r s. s + fst (isect bvh r)) rs 0"

definition sequential_cost ::
  "('bvh \<Rightarrow> 'ray \<Rightarrow> u32 \<times> 'ray) \<Rightarrow> (u32 \<Rightarrow> nat \<Rightarrow> 'c) \<Rightarrow> nat \<Rightarrow> 'bvh \<Rightarrow> 'ray list \<Rightarrow> 'c" where
  "sequential_cost isect fdiv N bvh rs = fdiv (sequential_sum isect bvh rs) N"

text \<open>\<^verbatim>\<open>RRSTraceTime\<close> converts the hierarchy (\<open>convert\<close> stands for the copy into a
  \<^verbatim>\<open>BVH8_CPU\<close>, \<open>isect8\<close> for its \<^verbatim>\<open>Intersect\<close>), traverses the whole set eleven times
  with a local ray \<open>r\<close> and returns what the timer shows (\<open>runtime\<close>, which no definition
  here can compute). The step total only feeds a dummy assignment.\<close>

definition RRSTraceTime ::
  "('bvh \<Rightarrow> 'fast) \<Rightarrow> ('fast \<Rightarrow> 'ray \<Rightarrow> u32 \<times> 'ray) \<Rightarrow> 'c \<Rightarrow> nat \<Rightarrow>
   'bvh \<Rightarrow> 'ray globals \<Rightarrow> ('c \<times> u32) \<times> 'ray globals" where
  "RRSTraceTime convert isect8 runtime N bvh g =
     (let fastbvh = convert bvh;
          sum = fold (\<lambda>i s. fst (fold (plain_step isect8 fastbvh (rayset g)) [0..<N] (s, console g)))
                  [0..<11] 0
      in ((runtime, sum), g))"

text \<open>A session evaluates many times; \<open>run_evals\<close> performs a list of evaluation calls on
  the globals, in order.\<close>

datatype ('bvh) eval_call = CostCall 'bvh "'bvh option" | TimeCall 'bvh

fun run_evals ::
  "('bvh \<Rightarrow> 'ray \<Rightarrow> u32 \<times> 'ray) \<Rightarrow> ('ray \<Rightarrow> 'ray \<Rightarrow> bool) \<Rightarrow> (u32 \<Rightarrow> nat \<Rightarrow> 'c) \<Rightarrow>
   ('bvh \<Rightarrow> 'fast) \<Rightarrow> ('fast \<Rightarrow> 'ray \<Rightarrow> u32 \<times> 'ray) \<Rightarrow> 'c \<Rightarrow> nat \<Rightarrow>
   'bvh eval_call list \<Rightarrow> 'ray globals \<Rightarrow> 'ray globals" where
  "run_evals isect differs fdiv convert isect8 runtime N [] g = g"
| "run_evals isect differs fdiv convert isect8 runtime N (CostCall bvh refBVH # cs) g =
     run_evals isect differs fdiv convert isect8 runtime N cs
       (snd (RRSTraceCost isect differs fdiv N bvh refBVH g))"
| "run_evals isect differs fdiv convert isect8 runtime N (TimeCall bvh # cs) g =
     run_evals isect differs fdiv convert isect8 runtime N cs
       (snd (RRSTraceTime convert isect8 runtime N bvh g))"

text \<open>The step total of the rays with index in \<open>[a, b)\<close>, for stating what a shard adds up.\<close>

definition range_sum :: "('bvh \<Rightarrow> 'ray \<Rightarrow> u32 \<times> 'ray) \<Rightarrow> 'bvh \<Rightarrow> 'ray list \<Rightarrow> nat \<Rightarrow> nat \<Rightarrow> u32" where
  "range_sum isect bvh rs a b = sum_list (map (\<lambda>i. fst (isect bvh (rs ! i))) [a..<b])"


section \<open>The two search stages of \<^verbatim>\<open>main\<close>\<close>

text \<open>
  Costs are the floats that \<^verbatim>\<open>RRSTraceCost\<close> returns: a \<^verbatim>\<open>uint32_t\<close> converted and
  divided by the positive constant \<^verbatim>\<open>RRS_SIZE\<close>, so never a NaN. On such values the float
  comparisons are a linear order, and the stages are written over any linearly ordered
  type of costs. Console and log output of \<^verbatim>\<open>main\<close> is not modelled; every call of
  \<^verbatim>\<open>Save\<close> is recorded with the cost measured just before it, newest last.
\<close>

subsection \<open>Stage 1: the bin count sweep\<close>






subsection \<open>Stage 2: mutate, measure, keep or roll back\<close>

text \<open>The fields of \<^verbatim>\<open>BVH\<close> that \<^verbatim>\<open>main\<close> reads and writes. \<open>bvhNode\<close> is the node
  buffer, as long as its allocation; further fields of the library's class are the
  extension of the record.\<close>

record 'node BVH =
  bvhNode :: "'node list"
  usedNodes :: nat
  allocatedNodes :: nat

text \<open>\<^verbatim>\<open>memcpy\<close> of \<open>n\<close> nodes from \<open>src\<close> to \<open>dst\<close>. A copy that leaves either buffer has
  no defined result.\<close>

definition memcpy :: "'a list \<Rightarrow> 'a list \<Rightarrow> nat \<Rightarrow> 'a list option" where
  "memcpy dst src n =
     (if n \<le> length dst \<and> n \<le> length src then Some (take n src @ drop n dst) else None)"

record ('b, 'node, 'v, 'c, 'ray) stage2_state =
  s2_bvh :: 'b
  backup :: "'node list"
  verbose :: 'v
  iteration :: u32
  s2_saved :: "('c \<times> 'b) list"
  s2_globals :: "'ray globals"

text \<open>One round of the \<^verbatim>\<open>while (1)\<close> of lines 415 to 443. \<open>mutate v b\<close> stands for the three
  library calls of lines 421 to 423 (\<^verbatim>\<open>verbose->ConvertFrom\<close>, \<^verbatim>\<open>verbose->Optimize\<close>,
  \<^verbatim>\<open>bvh.ConvertFrom\<close>) and gives the hierarchy and the \<^verbatim>\<open>BVH_Verbose\<close> object they leave.
  \<open>verify\<close> is the reference hierarchy under \<^verbatim>\<open>VERIFY_OPTIMIZED_BVH\<close>, else \<open>None\<close>.\<close>

definition stage2_iteration ::
  "(('node, 'x) BVH_scheme \<Rightarrow> 'ray \<Rightarrow> u32 \<times> 'ray) \<Rightarrow> ('ray \<Rightarrow> 'ray \<Rightarrow> bool) \<Rightarrow>
   (u32 \<Rightarrow> nat \<Rightarrow> 'c::linorder) \<Rightarrow> nat \<Rightarrow>
   ('v \<Rightarrow> ('node, 'x) BVH_scheme \<Rightarrow> ('node, 'x) BVH_scheme \<times> 'v) \<Rightarrow>
   ('node, 'x) BVH_scheme option \<Rightarrow>
   (('node, 'x) BVH_scheme, 'node, 'v, 'c, 'ray) stage2_state \<Rightarrow>
   (('node, 'x) BVH_scheme, 'node, 'v, 'c, 'ray) stage2_state option" where
  "stage2_iteration isect differs fdiv N mutate verify st =
     (let bvh = s2_bvh st;
          (costBefore, g1) = RRSTraceCost isect differs fdiv N bvh None (s2_globals st)
      in case memcpy (backup st) (bvhNode bvh) (allocatedNodes bvh) of
           None \<Rightarrow> None
         | Some bak \<Rightarrow>
             (let usedBackup = usedNodes bvh;
                  allocBackup = allocatedNodes bvh;
                  (bvh', v') = mutate (verbose st) bvh;
                  (costAfter, g2) = RRSTraceCost isect differs fdiv N bvh' verify g1;
                  st' = st\<lparr>backup := bak, verbose := v', iteration := iteration st + 1,
                          s2_globals := g2\<rparr>
              in if costAfter \<ge> costBefore
                 then (case memcpy (bvhNode bvh') bak (allocatedNodes bvh') of
                         None \<Rightarrow> None
                       | Some nodes \<Rightarrow>
                           Some (st'\<lparr>s2_bvh := bvh'\<lparr>bvhNode := nodes, usedNodes := usedBackup,
                                                     allocatedNodes := allocBackup\<rparr>\<rparr>))
                 else Some (st'\<lparr>s2_bvh := bvh', s2_saved := s2_saved st @ [(costAfter, bvh')]\<rparr>)))"



text \<open>The values a round of stage 2 compares: the cost before the mutation, the candidate
  the mutation gives, and its cost.\<close>

definition costBefore ::
  "(('node, 'x) BVH_scheme \<Rightarrow> 'ray \<Rightarrow> u32 \<times> 'ray) \<Rightarrow> ('ray \<Rightarrow> 'ray \<Rightarrow> bool) \<Rightarrow>
   (u32 \<Rightarrow> nat \<Rightarrow> 'c::linorder) \<Rightarrow> nat \<Rightarrow>
   (('node, 'x) BVH_scheme, 'node, 'v, 'c, 'ray) stage2_state \<Rightarrow> 'c" where
  "costBefore isect differs fdiv N st =
     fst (RRSTraceCost isect differs fdiv N (s2_bvh st) None (s2_globals st))"

definition candidate ::
  "('v \<Rightarrow> ('node, 'x) BVH_scheme \<Rightarrow> ('node, 'x) BVH_scheme \<times> 'v) \<Rightarrow>
   (('node, 'x) BVH_scheme, 'node, 'v, 'c, 'ray) stage2_state \<Rightarrow> ('node, 'x) BVH_scheme" where
  "candidate mutate st = fst (mutate (verbose st) (s2_bvh st))"

definition costAfter ::
  "(('node, 'x) BVH_scheme \<Rightarrow> 'ray \<Rightarrow> u32 \<times> 'ray) \<Rightarrow> ('ray \<Rightarrow> 'ray \<Rightarrow> bool) \<Rightarrow>
   (u32 \<Rightarrow> nat \<Rightarrow> 'c::linorder) \<Rightarrow> nat \<Rightarrow>
   ('v \<Rightarrow> ('node, 'x) BVH_scheme \<Rightarrow> ('node, 'x) BVH_scheme \<times> 'v) \<Rightarrow>
   ('node, 'x) BVH_scheme option \<Rightarrow>
   (('node, 'x) BVH_scheme, 'node, 'v, 'c, 'ray) stage2_state \<Rightarrow> 'c" where
  "costAfter isect differs fdiv N mutate verify st =
     fst (RRSTraceCost isect differs fdiv N (candidate mutate st) verify
            (snd (RRSTraceCost isect differs fdiv N (s2_bvh st) None (s2_globals st))))"




section \<open>The representative ray set generator\<close>

text \<open>
  \<^verbatim>\<open>RepresentativeRays\<close> computes in \<^verbatim>\<open>float\<close>. The definitions below are written over any
  type \<open>'a\<close> that has \<open>+\<close>, \<open>-\<close>, \<open>*\<close> and \<open><\<close>, with no law assumed of them, so that what is
  proved of the generator for every \<open>'a\<close> holds of the floats as well. A \<^verbatim>\<open>bvhvec3\<close> is a
  triple; its operators are componentwise, as in \<^verbatim>\<open>tiny_bvh.h\<close>.
\<close>

type_synonym 'a bvhvec3 = "'a \<times> 'a \<times> 'a"

definition vadd :: "'a::plus bvhvec3 \<Rightarrow> 'a bvhvec3 \<Rightarrow> 'a bvhvec3" where
  "vadd a b = (case a of (ax, ay, az) \<Rightarrow> case b of (bx, by, bz) \<Rightarrow> (ax + bx, ay + by, az + bz))"

definition vsub :: "'a::minus bvhvec3 \<Rightarrow> 'a bvhvec3 \<Rightarrow> 'a bvhvec3" where
  "vsub a b = (case a of (ax, ay, az) \<Rightarrow> case b of (bx, by, bz) \<Rightarrow> (ax - bx, ay - by, az - bz))"

definition vmul :: "'a::times bvhvec3 \<Rightarrow> 'a bvhvec3 \<Rightarrow> 'a bvhvec3" where
  "vmul a b = (case a of (ax, ay, az) \<Rightarrow> case b of (bx, by, bz) \<Rightarrow> (ax * bx, ay * by, az * bz))"

text \<open>Vector and scalar: \<^verbatim>\<open>v + f\<close>, \<^verbatim>\<open>v * f\<close> and \<^verbatim>\<open>f * v\<close>.\<close>

definition vadds :: "'a::plus bvhvec3 \<Rightarrow> 'a \<Rightarrow> 'a bvhvec3" where
  "vadds a f = (case a of (ax, ay, az) \<Rightarrow> (ax + f, ay + f, az + f))"

definition vscale :: "'a::times bvhvec3 \<Rightarrow> 'a \<Rightarrow> 'a bvhvec3" where
  "vscale a f = (case a of (ax, ay, az) \<Rightarrow> (ax * f, ay * f, az * f))"

definition smul :: "'a::times \<Rightarrow> 'a bvhvec3 \<Rightarrow> 'a bvhvec3" where
  "smul f a = (case a of (ax, ay, az) \<Rightarrow> (f * ax, f * ay, f * az))"

definition tinybvh_cross :: "'a::{minus,times} bvhvec3 \<Rightarrow> 'a bvhvec3 \<Rightarrow> 'a bvhvec3" where
  "tinybvh_cross a b =
     (case a of (ax, ay, az) \<Rightarrow> case b of (bx, by, bz) \<Rightarrow>
        (ay * bz - az * by, az * bx - ax * bz, ax * by - ay * bx))"

definition tinybvh_dot :: "'a::{plus,times} bvhvec3 \<Rightarrow> 'a bvhvec3 \<Rightarrow> 'a" where
  "tinybvh_dot a b =
     (case a of (ax, ay, az) \<Rightarrow> case b of (bx, by, bz) \<Rightarrow> ax * bx + ay * by + az * bz)"

text \<open>A ray, with the fields the generator reads: origin, direction, and the hit record's
  distance and primitive.\<close>

record 'a Ray =
  O :: "'a bvhvec3"
  D :: "'a bvhvec3"
  hit_t :: 'a
  hit_prim :: nat

text \<open>
  What the generator takes from \<^verbatim>\<open>tiny_bvh.h\<close> and from the scene, as one record: the
  bounds of the intermediate hierarchy \<^verbatim>\<open>tmp\<close>, its \<^verbatim>\<open>Intersect\<close> (the ray it leaves; the
  step count is not used here), the three vertices of a primitive (what
  \<^verbatim>\<open>GET_PRIM_INDICES_I0_I1_I2\<close> and \<^verbatim>\<open>tmp.verts\<close> give), the random vector with the seed
  it leaves, \<^verbatim>\<open>tinybvh_normalize\<close>, \<^verbatim>\<open>tinybvh_max\<close>, the constructor \<^verbatim>\<open>Ray( O, D )\<close>, the
  conversion of an integer to \<^verbatim>\<open>float\<close> (for \<^verbatim>\<open>(float)x\<close> and the literals 0, 1, 2, 10, 50)
  and the float literals.
\<close>

record 'a library =
  aabbMin :: "'a bvhvec3"
  aabbMax :: "'a bvhvec3"
  Intersect :: "'a Ray \<Rightarrow> 'a Ray"
  prim_verts :: "nat \<Rightarrow> 'a bvhvec3 \<times> 'a bvhvec3 \<times> 'a bvhvec3"
  tinybvh_rndvec3 :: "u32 \<Rightarrow> 'a bvhvec3 \<times> u32"
  tinybvh_normalize :: "'a bvhvec3 \<Rightarrow> 'a bvhvec3"
  tinybvh_max :: "'a \<Rightarrow> 'a \<Rightarrow> 'a"
  newRay :: "'a bvhvec3 \<Rightarrow> 'a bvhvec3 \<Rightarrow> 'a Ray"
  float_of :: "nat \<Rightarrow> 'a"
  lit_ninth :: 'a
  lit_0_03 :: 'a
  lit_0_00001 :: 'a
  lit_0_1 :: 'a
  lit_neg1 :: 'a
  BVH_FAR :: 'a

text \<open>The common preparations, lines 159 to 162.\<close>

definition bext :: "'a::minus library \<Rightarrow> 'a bvhvec3" where
  "bext L = vsub (aabbMax L) (aabbMin L)"

definition sceneSize :: "'a::minus library \<Rightarrow> 'a" where
  "sceneSize L =
     (case bext L of (ex, ey, ez) \<Rightarrow> tinybvh_max L (tinybvh_max L ex ey) ez)"

definition shortRay :: "'a::{minus,times} library \<Rightarrow> 'a" where
  "shortRay L = sceneSize L * lit_0_03 L"

definition longRay :: "'a::{minus,times} library \<Rightarrow> 'a" where
  "longRay L = sceneSize L * float_of L 10"

definition epsilon :: "'a::{minus,times} library \<Rightarrow> 'a" where
  "epsilon L = sceneSize L * lit_0_00001 L"

definition tooShort :: "'a::{minus,times} library \<Rightarrow> 'a" where
  "tooShort L = float_of L 50 * epsilon L"

text \<open>
  The variables of \<^verbatim>\<open>RepresentativeRays\<close> that change while it runs, with the globals it
  writes (\<^verbatim>\<open>rayset\<close>, and the console for the progress dots). The counters are
  \<^verbatim>\<open>uint32_t\<close>: naturals, reduced modulo \<open>2 ^ 32\<close> wherever the source adds. \<open>written\<close>
  is not in the source: it lists the assignments to \<^verbatim>\<open>rayset\<close> in the order they were made
  (group, index, ray), so that their order can be spoken of.
\<close>

record 'a rrs_state =
  glob :: "'a Ray globals"
  seed :: u32
  progress :: nat
  spawnIdx :: nat
  Ngroup1 :: nat
  Ngroup2 :: nat
  Ngroup3 :: nat
  Ngroup4 :: nat
  written :: "(nat \<times> nat \<times> 'a Ray) list"

definition store :: "nat \<Rightarrow> nat \<Rightarrow> 'a Ray \<Rightarrow> 'a rrs_state \<Rightarrow> 'a rrs_state" where
  "store k i r st =
     st\<lparr>glob := (glob st)\<lparr>rayset := (rayset (glob st))[i := r]\<rparr>,
        written := written st @ [(k, i, r)]\<rparr>"

text \<open>Classify and store, interior version (lines 186 to 192). \<open>ray\<close> is the ray after
  \<^verbatim>\<open>tmp.Intersect\<close>, \<open>r\<close> the copy made before it.\<close>

definition classify_interior ::
  "'a::{minus,times,ord} library \<Rightarrow> nat \<Rightarrow> nat \<Rightarrow> 'a Ray \<Rightarrow> 'a Ray \<Rightarrow> 'a rrs_state \<Rightarrow> 'a rrs_state" where
  "classify_interior L N j ray r st =
     (if j = 0 \<and> hit_t ray < longRay L \<and> Ngroup1 st < N div 4
      then store 1 (Ngroup1 st) r (st\<lparr>Ngroup1 := (Ngroup1 st + 1) mod 2 ^ 32\<rparr>)
      else if j > 0 \<and> hit_t ray < shortRay L \<and> hit_t ray > tooShort L \<and> Ngroup2 st < N div 4
      then store 2 ((Ngroup2 st + N div 4) mod 2 ^ 32) r
             (st\<lparr>Ngroup2 := (Ngroup2 st + 1) mod 2 ^ 32\<rparr>)
      else if j > 0 \<and> hit_t ray < longRay L \<and> hit_t ray > shortRay L \<and> Ngroup3 st < N div 4
      then store 3 ((Ngroup3 st + N div 2) mod 2 ^ 32) r
             (st\<lparr>Ngroup3 := (Ngroup3 st + 1) mod 2 ^ 32\<rparr>)
      else if j > 0 \<and> hit_t ray = BVH_FAR L \<and> Ngroup4 st < N div 4
      then store 4 ((Ngroup4 st + 3 * (N div 4)) mod 2 ^ 32) r
             (st\<lparr>Ngroup4 := (Ngroup4 st + 1) mod 2 ^ 32\<rparr>)
      else st)"

text \<open>Classify and store, object version (lines 222 to 226).\<close>

definition classify_object ::
  "'a::{minus,times,ord} library \<Rightarrow> nat \<Rightarrow> nat \<Rightarrow> 'a Ray \<Rightarrow> 'a Ray \<Rightarrow> 'a rrs_state \<Rightarrow> 'a rrs_state" where
  "classify_object L N j ray r st =
     (if j = 0 \<and> hit_t ray < longRay L \<and> Ngroup1 st < N div 2
      then store 1 (Ngroup1 st) r (st\<lparr>Ngroup1 := (Ngroup1 st + 1) mod 2 ^ 32\<rparr>)
      else if j > 0 \<and> hit_t ray > tooShort L \<and> Ngroup2 st < N div 4
      then store 2 ((Ngroup2 st + N div 2) mod 2 ^ 32) r
             (st\<lparr>Ngroup2 := (Ngroup2 st + 1) mod 2 ^ 32\<rparr>)
      else if j > 0 \<and> hit_t ray = BVH_FAR L \<and> Ngroup3 st < N div 4
      then store 3 ((Ngroup3 st + 3 * (N div 4)) mod 2 ^ 32) r
             (st\<lparr>Ngroup3 := (Ngroup3 st + 1) mod 2 ^ 32\<rparr>)
      else st)"

text \<open>The random bounce (lines 195 to 202, the same at 229 to 236): the new direction
  \<open>R\<close>, the new start \<open>P\<close> and the seed.\<close>

definition random_bounce ::
  "'a::{plus,minus,times,ord} library \<Rightarrow> 'a Ray \<Rightarrow> 'a bvhvec3 \<Rightarrow> u32 \<Rightarrow>
   'a bvhvec3 \<times> 'a bvhvec3 \<times> u32" where
  "random_bounce L ray P sd =
     (case prim_verts L (hit_prim ray) of (v0, v1, v2) \<Rightarrow>
        let N0 = tinybvh_normalize L (tinybvh_cross (vsub v1 v0) (vsub v2 v0));
            N1 = (if tinybvh_dot N0 (D ray) > float_of L 0 then vscale N0 (lit_neg1 L) else N0);
            (R0, sd') = tinybvh_rndvec3 L sd;
            R1 = (if tinybvh_dot R0 N1 < float_of L 0 then vscale R0 (lit_neg1 L) else R0)
        in (vadd P (smul (hit_t ray) R1), R1, sd'))"

text \<open>The \<^verbatim>\<open>for\<close> loop over \<open>j\<close> from the round \<open>j\<close> on; \<open>classify\<close> is one of the two
  functions above.\<close>

function random_walk ::
  "'a::{plus,minus,times,ord} library \<Rightarrow> (nat \<Rightarrow> 'a Ray \<Rightarrow> 'a Ray \<Rightarrow> 'a rrs_state \<Rightarrow> 'a rrs_state) \<Rightarrow>
   nat \<Rightarrow> 'a bvhvec3 \<Rightarrow> 'a bvhvec3 \<Rightarrow> 'a rrs_state \<Rightarrow> 'a rrs_state" where
  "random_walk L classify j P R st =
     (if j < 8
      then (let ray0 = newRay L (vadd P (vscale R (epsilon L))) R;
                r = ray0;
                ray = Intersect L ray0;
                st1 = classify j ray r st
            in if hit_t ray = BVH_FAR L then st1
               else (case random_bounce L ray P (seed st1) of (P', R', sd') \<Rightarrow>
                       random_walk L classify (j + 1) P' R' (st1\<lparr>seed := sd'\<rparr>)))
      else st)"
  by pat_completeness auto
termination
  by (relation "measure (\<lambda>(L, classify, j, P, R, st). 8 - j)") auto

text \<open>The progress dot of lines 178 and 213.\<close>

definition tick :: "nat \<Rightarrow> 'a rrs_state \<Rightarrow> 'a rrs_state" where
  "tick N st =
     (let p = (progress st + 1) mod 2 ^ 32
      in if p = N div 10
         then st\<lparr>progress := 0, glob := (glob st)\<lparr>console := console (glob st) @ [''.'']\<rparr>\<rparr>
         else st\<lparr>progress := p\<rparr>)"

declare random_walk.simps [simp del]

text \<open>The spawn points of the interior version (lines 173 and 174): the three loops assign
  the slots of the local array \<^verbatim>\<open>S\<close>, which starts with whatever \<open>S0\<close> the stack holds.\<close>

definition grid_order :: "(nat \<times> nat \<times> nat) list" where
  "grid_order = [(gx, gy, gz). gx \<leftarrow> [0..<8], gy \<leftarrow> [0..<8], gz \<leftarrow> [0..<8]]"

definition grid_point :: "'a::{plus,minus,times} library \<Rightarrow> nat \<Rightarrow> nat \<Rightarrow> nat \<Rightarrow> 'a bvhvec3" where
  "grid_point L gx gy gz =
     vadd (aabbMin L)
       (vmul (vscale (vadds (float_of L gx, float_of L gy, float_of L gz) (float_of L 1))
                (lit_ninth L))
          (bext L))"

definition spawn_grid :: "'a::{plus,minus,times} library \<Rightarrow> 'a bvhvec3 list \<Rightarrow> 'a bvhvec3 list" where
  "spawn_grid L S0 =
     fold (\<lambda>(gx, gy, gz) S. S[gx + gy * 8 + gz * 64 := grid_point L gx gy gz]) grid_order S0"

text \<open>The spawn points of the object version (line 209), with the seed the 512 calls
  leave.\<close>

definition spawn_sphere ::
  "'a::{minus,times} library \<Rightarrow> 'a bvhvec3 list \<Rightarrow> u32 \<Rightarrow> 'a bvhvec3 list \<times> u32" where
  "spawn_sphere L S0 sd0 =
     fold (\<lambda>i (S, sd). case tinybvh_rndvec3 L sd of (v, sd') \<Rightarrow>
             (S[i := vscale (vmul v (bext L)) (float_of L 2)], sd'))
       [0..<512] (S0, sd0)"

text \<open>One round of the \<^verbatim>\<open>while\<close> loop, interior version (lines 178 to 203).\<close>

definition interior_path ::
  "'a::{plus,minus,times,ord} library \<Rightarrow> nat \<Rightarrow> 'a bvhvec3 list \<Rightarrow> 'a rrs_state \<Rightarrow> 'a rrs_state" where
  "interior_path L N S st =
     (let st1 = tick N st;
          P = S ! (spawnIdx st1 mod 512);
          st2 = st1\<lparr>spawnIdx := (spawnIdx st1 + 1) mod 2 ^ 32\<rparr>;
          (R, sd) = tinybvh_rndvec3 L (seed st2)
      in random_walk L (classify_interior L N) 0 P R (st2\<lparr>seed := sd\<rparr>))"

text \<open>One round of the \<^verbatim>\<open>while\<close> loop, object version (lines 213 to 237). The second
  point is read with the index already advanced.\<close>

definition object_path ::
  "'a::{plus,minus,times,ord} library \<Rightarrow> nat \<Rightarrow> 'a bvhvec3 list \<Rightarrow> 'a rrs_state \<Rightarrow> 'a rrs_state" where
  "object_path L N S st =
     (let st1 = tick N st;
          P = S ! (spawnIdx st1 mod 512);
          st2 = st1\<lparr>spawnIdx := (spawnIdx st1 + 1) mod 2 ^ 32\<rparr>;
          P2 = vscale (S ! (((spawnIdx st2 * 13) mod 2 ^ 32) mod 512)) (lit_0_1 L);
          R = tinybvh_normalize L (vsub P2 P)
      in random_walk L (classify_object L N) 0 P R st2)"

text \<open>The loop tests of lines 176 and 211, and the two loops. A loop that never fills its
  groups returns nothing.\<close>

definition interior_more :: "nat \<Rightarrow> 'a rrs_state \<Rightarrow> bool" where
  "interior_more N st \<longleftrightarrow> (Ngroup1 st + Ngroup2 st + Ngroup3 st + Ngroup4 st) mod 2 ^ 32 < N"

definition object_more :: "nat \<Rightarrow> 'a rrs_state \<Rightarrow> bool" where
  "object_more N st \<longleftrightarrow> (Ngroup1 st + Ngroup2 st + Ngroup3 st) mod 2 ^ 32 < N"

partial_function (option) interior_loop ::
  "'a::{plus,minus,times,ord} library \<Rightarrow> nat \<Rightarrow> 'a bvhvec3 list \<Rightarrow> 'a rrs_state \<Rightarrow> 'a rrs_state option" where
  "interior_loop L N S st =
     (if interior_more N st then interior_loop L N S (interior_path L N S st) else Some st)"

partial_function (option) object_loop ::
  "'a::{plus,minus,times,ord} library \<Rightarrow> nat \<Rightarrow> 'a bvhvec3 list \<Rightarrow> 'a rrs_state \<Rightarrow> 'a rrs_state option" where
  "object_loop L N S st =
     (if object_more N st then object_loop L N S (object_path L N S st) else Some st)"

text \<open>\<^verbatim>\<open>RepresentativeRays\<close> itself. \<open>g\<close> holds the globals, with the array that
  \<^verbatim>\<open>new Ray[RRS_SIZE]\<close> gave, and \<open>S0\<close> is the local array \<^verbatim>\<open>S\<close> before it is filled.\<close>

definition RRS_INTERIOR :: nat where
  "RRS_INTERIOR = 1"

definition RRS_OBJECT :: nat where
  "RRS_OBJECT = 2"

definition initial_state :: "'a Ray globals \<Rightarrow> 'a rrs_state" where
  "initial_state g =
     \<lparr>glob = g\<lparr>console := console g @ [''Generating representative ray set'']\<rparr>,
      seed = 0x123456, progress = 0, spawnIdx = 0,
      Ngroup1 = 0, Ngroup2 = 0, Ngroup3 = 0, Ngroup4 = 0, written = []\<rparr>"

definition finish :: "'a rrs_state \<Rightarrow> 'a rrs_state" where
  "finish st = st\<lparr>glob := (glob st)\<lparr>console := console (glob st) @ ['' done.'']\<rparr>\<rparr>"

definition RepresentativeRays ::
  "'a::{plus,minus,times,ord} library \<Rightarrow> nat \<Rightarrow> nat \<Rightarrow> 'a bvhvec3 list \<Rightarrow> 'a Ray globals \<Rightarrow>
   'a rrs_state option" where
  "RepresentativeRays L N setType S0 g =
     (if setType = RRS_INTERIOR
      then map_option finish (interior_loop L N (spawn_grid L S0) (initial_state g))
      else (case spawn_sphere L S0 (seed (initial_state g)) of (S, sd) \<Rightarrow>
              map_option finish (object_loop L N S ((initial_state g)\<lparr>seed := sd\<rparr>))))"

text \<open>Where the groups are kept in \<^verbatim>\<open>rayset\<close>: the first index and the size of group \<open>k\<close>
  in each version, as the assignments of lines 186 to 192 and 222 to 226 have them.\<close>

definition interior_offset :: "nat \<Rightarrow> nat \<Rightarrow> nat" where
  "interior_offset N k =
     (if k = 1 then 0 else if k = 2 then N div 4 else if k = 3 then N div 2 else 3 * (N div 4))"

definition interior_cap :: "nat \<Rightarrow> nat \<Rightarrow> nat" where
  "interior_cap N k = N div 4"

definition object_offset :: "nat \<Rightarrow> nat \<Rightarrow> nat" where
  "object_offset N k = (if k = 1 then 0 else if k = 2 then N div 2 else 3 * (N div 4))"

definition object_cap :: "nat \<Rightarrow> nat \<Rightarrow> nat" where
  "object_cap N k = (if k = 1 then N div 2 else if k = 2 \<or> k = 3 then N div 4 else 0)"

definition counter :: "nat \<Rightarrow> 'a rrs_state \<Rightarrow> nat" where
  "counter k st =
     (if k = 1 then Ngroup1 st else if k = 2 then Ngroup2 st
      else if k = 3 then Ngroup3 st else Ngroup4 st)"

text \<open>The indices that group \<open>k\<close> has been assigned, in the order of the assignments.\<close>

definition group_indices :: "nat \<Rightarrow> (nat \<times> nat \<times> 'r) list \<Rightarrow> nat list" where
  "group_indices k ws = map (\<lambda>w. fst (snd w)) (filter (\<lambda>w. fst w = k) ws)"

text \<open>Group \<open>k\<close>'s counter after its \<^verbatim>\<open>Ngroup++\<close>.\<close>

definition bump :: "nat \<Rightarrow> 'a rrs_state \<Rightarrow> 'a rrs_state" where
  "bump k st =
     (if k = 1 then st\<lparr>Ngroup1 := (Ngroup1 st + 1) mod 2 ^ 32\<rparr>
      else if k = 2 then st\<lparr>Ngroup2 := (Ngroup2 st + 1) mod 2 ^ 32\<rparr>
      else if k = 3 then st\<lparr>Ngroup3 := (Ngroup3 st + 1) mod 2 ^ 32\<rparr>
      else st\<lparr>Ngroup4 := (Ngroup4 st + 1) mod 2 ^ 32\<rparr>)"

text \<open>A step that leaves the state or stores one ray in a group that is not full, at the
  group's next index.\<close>

definition stores_one :: "(nat \<Rightarrow> nat) \<Rightarrow> (nat \<Rightarrow> nat) \<Rightarrow> 'a rrs_state \<Rightarrow> 'a rrs_state \<Rightarrow> bool" where
  "stores_one off cap st st' \<longleftrightarrow>
     st' = st \<or>
     (\<exists>k r. k \<in> {1, 2, 3, 4} \<and> counter k st < cap k
        \<and> st' = store k ((counter k st + off k) mod 2 ^ 32) r (bump k st))"

text \<open>The state of the groups that every step keeps: no counter is above its size, group
  \<open>k\<close> has been assigned the indices from its first one on, one after the other, and the
  array has \<open>N\<close> slots.\<close>

definition layout_inv :: "(nat \<Rightarrow> nat) \<Rightarrow> (nat \<Rightarrow> nat) \<Rightarrow> nat \<Rightarrow> 'a rrs_state \<Rightarrow> bool" where
  "layout_inv off cap N st \<longleftrightarrow>
     (\<forall>k \<in> {1, 2, 3, 4}. counter k st \<le> cap k
        \<and> group_indices k (written st) = [off k ..< off k + counter k st])
     \<and> (\<forall>w \<in> set (written st). fst w \<in> {1, 2, 3, 4})
     \<and> length (rayset (glob st)) = N"

definition content_inv :: "'a rrs_state \<Rightarrow> bool" where
  "content_inv st \<longleftrightarrow> (\<forall>w \<in> set (written st). rayset (glob st) ! fst (snd w) = snd (snd w))"

text \<open>What a good arrangement of groups is: every group inside the array, no two groups
  sharing an index.\<close>

definition layout_ok :: "(nat \<Rightarrow> nat) \<Rightarrow> (nat \<Rightarrow> nat) \<Rightarrow> nat \<Rightarrow> bool" where
  "layout_ok off cap N \<longleftrightarrow>
     (\<forall>k \<in> {1, 2, 3, 4}. off k + cap k \<le> N)
     \<and> (\<forall>k \<in> {1, 2, 3, 4}. \<forall>k' \<in> {1, 2, 3, 4}. k \<noteq> k' \<longrightarrow>
          off k + cap k \<le> off k' \<or> off k' + cap k' \<le> off k)"

section \<open>A small session, for the examples\<close>






section \<open>Properties of the evaluator\<close>

lemma fold_plain_step:
  "fold (plain_step isect bvh rs) js acc =
     (fst acc + sum_list (map (\<lambda>i. fst (isect bvh (rs ! i))) js), snd acc)"
  by (induction js arbitrary: acc) (simp_all add: plain_step_def split_beta add.assoc)

lemma fst_fold_verify_step:
  "fst (fold (verify_step isect differs bvh rb rs) js acc) =
     fst acc + sum_list (map (\<lambda>i. fst (isect bvh (rs ! i))) js)"
  by (induction js arbitrary: acc) (simp_all add: verify_step_def split_beta Let_def add.assoc)

lemma shard_start_eq:
  assumes "0 < sets" "seti < sets" "N < 2 ^ 32"
  shows "shard_start N seti sets = (N div sets) * seti"
proof -
  have "(N div sets) * seti \<le> (N div sets) * sets" using assms by simp
  also have "\<dots> \<le> N" by (simp add: div_times_less_eq_dividend)
  finally have le: "(N div sets) * seti \<le> N" .
  have "N div sets \<le> N" by (rule div_le_dividend)
  hence "N div sets < 2 ^ 32" using assms(3) by (rule le_less_trans)
  hence "(N div sets) mod 2 ^ 32 = N div sets" by (rule mod_less)
  moreover have "(N div sets) * seti < 2 ^ 32" using le assms(3) by (rule le_less_trans)
  ultimately show ?thesis by (simp add: shard_start_def)
qed

lemma shard_end_eq:
  assumes "0 < sets" "seti < sets" "N < 2 ^ 32"
  shows "shard_end N seti sets = (if Suc seti = sets then N else (N div sets) * Suc seti)"
proof (cases "Suc seti = sets")
  case True thus ?thesis by (simp add: shard_end_def)
next
  case False
  hence lt: "Suc seti < sets" using assms by simp
  have "Suc seti \<le> sets" using lt by simp
  hence "(N div sets) * Suc seti \<le> (N div sets) * sets" by (rule mult_le_mono2)
  also have "\<dots> \<le> N" by (simp add: div_times_less_eq_dividend)
  finally have le: "(N div sets) * Suc seti \<le> N" .
  have "N div sets \<le> N" by (rule div_le_dividend)
  hence "N div sets < 2 ^ 32" using assms(3) by (rule le_less_trans)
  hence m: "(N div sets) mod 2 ^ 32 = N div sets" by (rule mod_less)
  have lt2: "(N div sets) * Suc seti < 2 ^ 32" using le assms(3) by (rule le_less_trans)
  have "shard_end N seti sets = (shard_start N seti sets + (N div sets) mod 2 ^ 32) mod 2 ^ 32"
    using False by (simp add: shard_end_def)
  also have "\<dots> = ((N div sets) * seti + N div sets) mod 2 ^ 32"
    by (simp only: shard_start_eq[OF assms] m)
  also have "\<dots> = ((N div sets) * Suc seti) mod 2 ^ 32" by (simp add: add.commute)
  also have "\<dots> = (N div sets) * Suc seti" using lt2 by (rule mod_less)
  finally show ?thesis using False by simp
qed

lemma TraceCostThread_rayset:
  "rayset (TraceCostThread isect differs N bvh refBVH seti sets g) = rayset g"
  by (simp add: TraceCostThread_def Let_def split_beta)

lemma TraceCostThread_splitSum:
  "splitSum (TraceCostThread isect differs N bvh refBVH seti sets g) =
     (splitSum g)[seti := range_sum isect bvh (rayset g) (shard_start N seti sets) (shard_end N seti sets)]"
  by (cases refBVH)
     (simp_all add: TraceCostThread_def Let_def split_beta fold_plain_step
        fst_fold_verify_step range_sum_def)

lemma run_threads_rayset:
  "rayset (run_threads isect differs N bvh refBVH sets order g) = rayset g"
  unfolding run_threads_def
  by (induction order arbitrary: g) (simp_all add: TraceCostThread_rayset)

lemma run_threads_length:
  "length (splitSum (run_threads isect differs N bvh refBVH sets order g)) = length (splitSum g)"
  unfolding run_threads_def
  by (induction order arbitrary: g) (simp_all add: TraceCostThread_splitSum)

lemma run_threads_slot:
  assumes "k < length (splitSum g)"
  shows "splitSum (run_threads isect differs N bvh refBVH sets order g) ! k =
     (if k \<in> set order
      then range_sum isect bvh (rayset g) (shard_start N k sets) (shard_end N k sets)
      else splitSum g ! k)"
  using assms unfolding run_threads_def
proof (induction order arbitrary: g rule: rev_induct)
  case Nil thus ?case by simp
next
  case (snoc x xs)
  have len: "length (splitSum (fold (\<lambda>i. TraceCostThread isect differs N bvh refBVH i sets) xs g)) = length (splitSum g)"
    using run_threads_length[of isect differs N bvh refBVH sets xs g] by (simp add: run_threads_def)
  have rs: "rayset (fold (\<lambda>i. TraceCostThread isect differs N bvh refBVH i sets) xs g) = rayset g"
    using run_threads_rayset[of isect differs N bvh refBVH sets xs g] by (simp add: run_threads_def)
  show ?case using snoc len rs
    by (cases "x = k") (simp_all add: TraceCostThread_splitSum)
qed

lemma range_sum_append:
  "a \<le> b \<Longrightarrow> b \<le> c \<Longrightarrow>
   range_sum isect bvh rs a b + range_sum isect bvh rs b c = range_sum isect bvh rs a c"
proof -
  assume "a \<le> b" "b \<le> c"
  hence "[a..<c] = [a..<b] @ [b..<c]" by (metis le_Suc_ex upt_add_eq_append)
  thus ?thesis by (simp add: range_sum_def)
qed

lemma fold_add_sum_list:
  "fold (\<lambda>i (s::u32). s + f i) js a = a + sum_list (map f js)"
  by (induction js arbitrary: a) (simp_all add: add.assoc)

lemma shards_prefix:
  assumes "0 < sets" "N < 2 ^ 32" "m < sets"
  shows "sum_list (map (\<lambda>k. range_sum isect bvh rs (shard_start N k sets) (shard_end N k sets)) [0..<m])
          = range_sum isect bvh rs 0 ((N div sets) * m)"
  using assms(3)
proof (induction m)
  case 0 show ?case by (simp add: range_sum_def)
next
  case (Suc m)
  hence lt: "m < sets" "Suc m \<noteq> sets" by simp_all
  have "range_sum isect bvh rs 0 ((N div sets) * m)
         + range_sum isect bvh rs ((N div sets) * m) ((N div sets) * Suc m)
        = range_sum isect bvh rs 0 ((N div sets) * Suc m)"
    by (rule range_sum_append) simp_all
  thus ?case using Suc lt
    by (simp add: shard_start_eq[OF assms(1) lt(1) assms(2)] shard_end_eq[OF assms(1) lt(1) assms(2)])
qed

lemma shards_total:
  assumes "0 < sets" "N < 2 ^ 32"
  shows "sum_list (map (\<lambda>k. range_sum isect bvh rs (shard_start N k sets) (shard_end N k sets)) [0..<sets])
          = range_sum isect bvh rs 0 N"
proof -
  obtain m where m: "sets = Suc m" using assms(1) by (cases sets) auto
  have lt: "m < sets" using m by simp
  have "(N div sets) * m \<le> (N div sets) * sets" using lt by simp
  also have "\<dots> \<le> N" by (simp add: div_times_less_eq_dividend)
  finally have le: "(N div sets) * m \<le> N" .
  have app: "range_sum isect bvh rs 0 ((N div sets) * m) + range_sum isect bvh rs ((N div sets) * m) N
        = range_sum isect bvh rs 0 N"
    by (rule range_sum_append) (simp_all add: le)
  have upt: "[0..<sets] = [0..<m] @ [m]" by (simp add: m)
  have st: "shard_start N m sets = (N div sets) * m"
    by (rule shard_start_eq[OF assms(1) lt assms(2)])
  have en: "shard_end N m sets = N"
    by (simp add: shard_end_def m)
  show ?thesis
    by (simp only: upt map_append sum_list_append shards_prefix[OF assms lt] list.map
          sum_list.Cons sum_list.Nil add_0_right st en app)
qed

lemma range_sum_all:
  "range_sum isect bvh rs 0 (length rs) = sequential_sum isect bvh rs"
proof -
  have "map (\<lambda>i. fst (isect bvh (rs ! i))) [0..<length rs] = map (\<lambda>r. fst (isect bvh r)) rs"
    by (rule nth_equalityI) simp_all
  moreover have "fold (\<lambda>r (s::u32). s + fst (isect bvh r)) rs a = a + sum_list (map (\<lambda>r. fst (isect bvh r)) rs)" for a
    by (induction rs arbitrary: a) (simp_all add: add.assoc)
  ultimately show ?thesis by (simp add: range_sum_def sequential_sum_def)
qed

lemma RRSTraceCost_sets_sum:
  assumes "0 < sets" "sets \<le> length (splitSum g)" "N < 2 ^ 32" "length (rayset g) = N"
  shows "fst (RRSTraceCost_sets isect differs fdiv N sets bvh refBVH g)
          = sequential_cost isect fdiv N bvh (rayset g)"
proof -
  let ?g' = "run_threads isect differs N bvh refBVH sets [0..<sets] g"
  have "map (\<lambda>i. splitSum ?g' ! i) [0..<sets]
        = map (\<lambda>k. range_sum isect bvh (rayset g) (shard_start N k sets) (shard_end N k sets)) [0..<sets]"
    using assms(2) by (auto simp: run_threads_slot)
  hence "sum_list (map (\<lambda>i. splitSum ?g' ! i) [0..<sets]) = range_sum isect bvh (rayset g) 0 N"
    by (simp only: shards_total[OF assms(1,3)])
  hence "fold (\<lambda>i s. s + splitSum ?g' ! i) [0..<sets] 0 = range_sum isect bvh (rayset g) 0 N"
    by (simp only: fold_add_sum_list add_0)
  thus ?thesis
    using assms(4) range_sum_all[of isect bvh "rayset g"]
    by (simp add: RRSTraceCost_sets_def Let_def sequential_cost_def)
qed

text \<open>The slots of \<^verbatim>\<open>splitSum\<close> after the join do not depend on the order in which the
  threads ran, nor on the reference hierarchy.\<close>

lemma run_threads_order:
  assumes "set order = set order'"
  shows "splitSum (run_threads isect differs N bvh refBVH sets order g) =
         splitSum (run_threads isect differs N bvh refBVH sets order' g)"
  by (rule nth_equalityI) (simp_all add: run_threads_length run_threads_slot assms)


lemma fold_plain_step_console:
  "snd (fold (plain_step isect bvh rs) js acc) = snd acc"
  by (simp add: fold_plain_step)






lemma RRSTraceCost_rayset:
  "rayset (snd (RRSTraceCost isect differs fdiv N bvh refBVH g)) = rayset g"
  by (simp add: RRSTraceCost_def RRSTraceCost_sets_def Let_def run_threads_rayset)

lemma RRSTraceTime_rayset:
  "rayset (snd (RRSTraceTime convert isect8 runtime N bvh g)) = rayset g"
  by (simp add: RRSTraceTime_def Let_def)

text \<open>
  Claim C1. For every hierarchy and ray set, the value that \<^verbatim>\<open>RRSTraceCost\<close> returns (eight
  contiguous shards, one \<^verbatim>\<open>uint32_t\<close> sum per shard, the sums added after the join, then
  the division by the ray count) is the value of the sequential evaluation of the whole set
  in index order; and the same holds with any other positive number of shards that the
  result array can hold, whether or not it divides the ray count.
\<close>

theorem RRSTraceCost_sharding_invariant:
  assumes "N < 2 ^ 31" and "length (rayset g) = N" and "length (splitSum g) = 256"
  shows "fst (RRSTraceCost isect differs fdiv N bvh refBVH g)
           = sequential_cost isect fdiv N bvh (rayset g)
       \<and> (\<forall>sets. 0 < sets \<and> sets \<le> 256 \<longrightarrow>
            fst (RRSTraceCost_sets isect differs fdiv N sets bvh refBVH g)
              = sequential_cost isect fdiv N bvh (rayset g))"
proof -
  have N: "N < 2 ^ 32" using assms(1) by simp
  have gen: "fst (RRSTraceCost_sets isect differs fdiv N sets bvh refBVH g)
              = sequential_cost isect fdiv N bvh (rayset g)"
    if "0 < sets" "sets \<le> 256" for sets
    using that assms(3) by (intro RRSTraceCost_sets_sum[OF _ _ N assms(2)]) simp_all
  have "fst (RRSTraceCost isect differs fdiv N bvh refBVH g)
           = sequential_cost isect fdiv N bvh (rayset g)"
    unfolding RRSTraceCost_def by (rule gen) simp_all
  thus ?thesis using gen by blast
qed

text \<open>Ten rays in eight shards (seven of one ray, the last of three), and in three shards.\<close>

theorem RRSTraceCost_sharding_invariant_witness:
  "fst (RRSTraceCost (\<lambda>b r. (of_nat (r + b), r)) (\<lambda>a b. False) (\<lambda>s n. (unat s, n)) 10 (1::nat) None
          \<lparr>rayset = [1, 2, 3, 4, 5, 6, 7, 8, 9, 10 :: nat], splitSum = replicate 256 0, console = []\<rparr>)
     = (65, 10)
   \<and> fst (RRSTraceCost_sets (\<lambda>b r. (of_nat (r + b), r)) (\<lambda>a b. False) (\<lambda>s n. (unat s, n)) 10 3 (1::nat) None
          \<lparr>rayset = [1, 2, 3, 4, 5, 6, 7, 8, 9, 10 :: nat], splitSum = replicate 256 0, console = []\<rparr>)
     = (65, 10)"
  using RRSTraceCost_sharding_invariant [of 10
      "\<lparr>rayset = [1, 2, 3, 4, 5, 6, 7, 8, 9, 10 :: nat], splitSum = replicate 256 0, console = []\<rparr>"
      "\<lambda>b r. (of_nat (r + b), r)" "\<lambda>a b. False" "\<lambda>s n. (unat s, n)" "1::nat" None]
  by (simp add: sequential_cost_def sequential_sum_def)

text \<open>
  Claim C6. Cost evaluation never changes the ray set: after \<^verbatim>\<open>RRSTraceCost\<close>, after
  \<^verbatim>\<open>RRSTraceTime\<close> and after any sequence of such calls, with any hierarchies, the array
  \<^verbatim>\<open>rayset\<close> holds the same rays (origin, direction and hit record) at every index.
\<close>

theorem cost_evaluation_keeps_rayset:
  "rayset (snd (RRSTraceCost isect differs fdiv N bvh refBVH g)) = rayset g
   \<and> rayset (snd (RRSTraceTime convert isect8 runtime N bvh g)) = rayset g
   \<and> rayset (run_evals isect differs fdiv convert isect8 runtime N calls g) = rayset g"
proof -
  have "rayset (run_evals isect differs fdiv convert isect8 runtime N calls g) = rayset g"
  proof (induction calls arbitrary: g)
    case Nil show ?case by simp
  next
    case (Cons c cs) thus ?case
      by (cases c) (simp_all add: RRSTraceCost_rayset RRSTraceTime_rayset)
  qed
  thus ?thesis by (simp add: RRSTraceCost_rayset RRSTraceTime_rayset)
qed



section \<open>Properties of the search stages\<close>





lemma RRSTraceCost_splitSum_length:
  "length (splitSum (snd (RRSTraceCost isect differs fdiv N bvh refBVH g))) = length (splitSum g)"
  by (simp add: RRSTraceCost_def RRSTraceCost_sets_def Let_def run_threads_length)

lemma stage2_iteration_globals:
  assumes "stage2_iteration isect differs fdiv N mutate verify st = Some st'"
  shows "rayset (s2_globals st') = rayset (s2_globals st)
       \<and> length (splitSum (s2_globals st')) = length (splitSum (s2_globals st))"
  using assms
  by (auto simp: stage2_iteration_def Let_def split_beta RRSTraceCost_rayset
        RRSTraceCost_splitSum_length split: option.splits if_splits)




















end
